theory Spec2Isabelle
  imports Complex_Main
begin

section \<open>Python values\<close>

text \<open>
  The values the entrypoint handles are the ones a JSON document decodes to in Python:
  \<open>None\<close>, \<open>bool\<close>, \<open>int\<close>, \<open>float\<close>, \<open>str\<close>, \<open>list\<close> and \<open>dict\<close>
  with string keys. A dict is an association list read with \<open>map_of\<close> (the first
  binding of a key is the one the dict holds).
\<close>

datatype pyfloat = Finite rat | Inf bool | NaN

datatype json =
    JNull
  | JBool bool
  | JInt int
  | JFloat pyfloat
  | JStr string
  | JArr "json list"
  | JObj "(string \<times> json) list"

text \<open>Python's truth test, as \<open>if x:\<close> applies it.\<close>

fun truthy :: "json \<Rightarrow> bool" where
  "truthy JNull = False"
| "truthy (JBool b) = b"
| "truthy (JInt i) = (i \<noteq> 0)"
| "truthy (JFloat x) = (x \<noteq> Finite 0)"
| "truthy (JStr s) = (s \<noteq> [])"
| "truthy (JArr xs) = (xs \<noteq> [])"
| "truthy (JObj kvs) = (kvs \<noteq> [])"

text \<open>The truth test on a value that is either \<open>None\<close> or a \<open>str\<close>.\<close>

fun truthy_str :: "string option \<Rightarrow> bool" where
  "truthy_str None = False"
| "truthy_str (Some s) = (s \<noteq> [])"

text \<open>\<open>d.get(k, default)\<close>\<close>

definition dict_get :: "(string \<times> json) list \<Rightarrow> string \<Rightarrow> json \<Rightarrow> json" where
  "dict_get d k dflt = (case map_of d k of None \<Rightarrow> dflt | Some v \<Rightarrow> v)"

text \<open>\<open>str(n)\<close> for an \<open>int\<close>, as an f-string formats it.\<close>

fun str_nat :: "nat \<Rightarrow> string" where
  "str_nat n =
     (if n < 10 then [''0123456789'' ! n]
      else str_nat (n div 10) @ [''0123456789'' ! (n mod 10)])"

declare str_nat.simps [simp del]

definition str_int :: "int \<Rightarrow> string" where
  "str_int i = (if i < 0 then CHR ''-'' # str_nat (nat (- i)) else str_nat (nat i))"

section \<open>Exceptions\<close>

text \<open>
  \<open>ProcessError\<close> is the only class \<open>main\<close> catches. \<open>KeyError\<close> is raised by
  \<open>payload["prompt"]\<close>, \<open>TypeError\<close> by \<open>json.loads\<close> on a value that is not a
  string; \<open>OtherError\<close> stands for every other class the SDK client raises
  (connection, CLI not found, message decoding), named by its class.
\<close>

datatype exn = ProcessError | KeyError | TypeError | OtherError string

section \<open>Native messages of the SDK\<close>

text \<open>
  \<open>ToolResultBlock.content\<close> is \<open>str | list[dict[str, Any]] | None\<close>.
\<close>

datatype tool_result_content =
    ContentNone
  | ContentStr string
  | ContentList "json list"

text \<open>
  The \<open>id\<close> of a \<open>ToolUseBlock\<close> is an option: \<open>None\<close> is a block object
  without the attribute, which is what \<open>hasattr(block, "id")\<close> tests.
\<close>

datatype content_block =
    TextBlock string
  | ThinkingBlock string
  | ToolUseBlock "string option" string json
  | ToolResultBlock string tool_result_content bool

text \<open>\<open>UserMessage.content\<close> is \<open>str | list[ContentBlock]\<close>.\<close>

datatype user_content = UStr string | UBlocks "content_block list"

datatype message =
    SystemMessage string "(string \<times> json) list"
  | AssistantMessage "content_block list"
  | UserMessage user_content
  | ResultMessage string
  | StreamEvent

section \<open>Events the entrypoint yields\<close>

text \<open>
  The three dicts of the source:
  \<open>{"current_tool_use": {"name": n, "input": i, "toolUseId": t}}\<close>,
  \<open>{"data": text}\<close> and \<open>{"claude_session_id": sid}\<close>.
\<close>

datatype event =
    Current_tool_use string json string
  | Data string
  | Claude_session_id string

section \<open>Sub-agent definitions (agents/subagents.py)\<close>

record agent_definition =
  description :: string
  agent_prompt :: string
  tools :: "string list"
  agent_model :: string

datatype mcp_server =
    Code_int_mcp_server
  | Http_server string "(string \<times> string) list"

text \<open>
  The description and the prompt are fixed texts of several lines; only their first
  sentence is written out here, nothing depends on them.
\<close>

definition code_analyst :: agent_definition where
  "code_analyst =
     \<lparr> description = ''Analyzes code output, debugs errors, and explains results.'',
       agent_prompt = ''You are a code analysis specialist.'',
       tools = [''mcp__codeint__execute_code'',
                ''mcp__codeint__execute_command'',
                ''mcp__gateway__*'',
                ''Read'',
                ''Grep'',
                ''Glob''],
       agent_model = ''sonnet'' \<rparr>"

definition get_subagent_definitions ::
    "(string \<times> mcp_server) list \<Rightarrow> (string \<times> agent_definition) list" where
  "get_subagent_definitions mcp_servers = [(''code-analyst'', code_analyst)]"

section \<open>The environment of one invocation\<close>

text \<open>
  One run of the agent, as \<open>ClaudeSDKClient\<close> delivers it: the messages
  \<open>receive_response()\<close> yields, then either the end of the stream or an exception
  (one raised while connecting or sending the prompt has no message before it).
\<close>

record run =
  messages :: "message list"
  failure :: "exn option"

record claude_agent_options =
  mcp_servers :: "(string \<times> mcp_server) list"
  model :: string
  allowed_tools :: "string list"
  agents :: "(string \<times> agent_definition) list"
  resume :: json
  cli_path :: string
  system_prompt :: string

text \<open>
  What the entrypoint calls and does not define: the process environment, the helpers of
  \<open>utils\<close>, the SDK client, \<open>json.loads\<close> (\<open>None\<close> is \<open>JSONDecodeError\<close>) and
  the builtin \<open>hash\<close> on strings. The client is given the number of clients opened
  before it in this invocation, the options and the prompt.
\<close>

record env =
  stack_name :: "string option"
  get_ssm_parameter :: "string \<Rightarrow> string option"
  get_gateway_access_token :: "string option"
  sdk_client :: "nat \<Rightarrow> claude_agent_options \<Rightarrow> json \<Rightarrow> run"
  json_loads :: "string \<Rightarrow> json option"
  hash :: "string \<Rightarrow> int"

section \<open>The entrypoint (agent.py)\<close>

definition gateway_url :: "env \<Rightarrow> string option" where
  "gateway_url E =
     (case stack_name E of
        None \<Rightarrow> None
      | Some s \<Rightarrow> if s \<noteq> [] then get_ssm_parameter E (''/'' @ s @ ''/gateway_url'') else None)"

definition access_token :: "env \<Rightarrow> string option" where
  "access_token E =
     (if truthy_str (gateway_url E) then get_gateway_access_token E else None)"

definition gateway_available :: "env \<Rightarrow> bool" where
  "gateway_available E = (truthy_str (gateway_url E) \<and> truthy_str (access_token E))"

definition main_mcp_servers :: "env \<Rightarrow> (string \<times> mcp_server) list" where
  "main_mcp_servers E =
     [(''codeint'', Code_int_mcp_server)] @
     (case (gateway_url E, access_token E) of
        (Some url, Some token) \<Rightarrow>
          if gateway_available E
          then [(''gateway'', Http_server url [(''Authorization'', ''Bearer '' @ token)])]
          else []
      | _ \<Rightarrow> [])"

definition main_allowed_tools :: "env \<Rightarrow> string list" where
  "main_allowed_tools E =
     [''mcp__codeint__execute_code'',
      ''mcp__codeint__execute_command'',
      ''mcp__codeint__write_files'',
      ''mcp__codeint__read_files''] @
     (if gateway_available E then [''mcp__gateway__*''] else []) @
     [''Task'']"

definition subagents :: "env \<Rightarrow> (string \<times> agent_definition) list" where
  "subagents E = get_subagent_definitions (main_mcp_servers E)"

text \<open>\<open>_build_options(resume_id)\<close>; the system prompt is cut to its first sentence.\<close>

definition build_options :: "env \<Rightarrow> json \<Rightarrow> claude_agent_options" where
  "build_options E resume_id =
     \<lparr> mcp_servers = main_mcp_servers E,
       model = ''us.anthropic.claude-opus-4-6-v1'',
       allowed_tools = main_allowed_tools E,
       agents = subagents E,
       resume = resume_id,
       cli_path = ''/usr/bin/claude'',
       system_prompt = ''You are an AI assistant that helps users with code execution and analysis tasks.'' \<rparr>"

text \<open>
  The variables \<open>_process_messages\<close> writes: \<open>agent_responses\<close> is the list of
  \<open>main\<close>, appended to in place; \<open>code_int_session_id\<close> is assigned in the body of
  \<open>_process_messages\<close> with no \<open>nonlocal\<close>, so it is a local of that generator,
  unbound (\<open>None\<close> here) until the first assignment.
\<close>

record frame =
  agent_responses :: "string list"
  code_int_session_id :: "json option"

text \<open>The \<open>toolUseId\<close> of a tool-use block.\<close>

fun tool_use_id :: "env \<Rightarrow> string option \<Rightarrow> string \<Rightarrow> string" where
  "tool_use_id E (Some i) name = ''tool-'' @ i"
| "tool_use_id E None name = ''tool-'' @ str_int (hash E name)"

text \<open>One block of an \<open>AssistantMessage\<close>: the events yielded and the new frame.\<close>

fun assistant_block :: "env \<Rightarrow> frame \<Rightarrow> content_block \<Rightarrow> event list \<times> frame" where
  "assistant_block E f (ToolUseBlock i name inp) =
     ([Current_tool_use name inp (tool_use_id E i name)], f)"
| "assistant_block E f (TextBlock text) =
     ([Data text], f\<lparr>agent_responses := agent_responses f @ [text]\<rparr>)"
| "assistant_block E f _ = ([], f)"

fun assistant_blocks :: "env \<Rightarrow> frame \<Rightarrow> content_block list \<Rightarrow> event list \<times> frame" where
  "assistant_blocks E f [] = ([], f)"
| "assistant_blocks E f (b # bs) =
     (case assistant_block E f b of
        (evs, f') \<Rightarrow> (case assistant_blocks E f' bs of (evs', f'') \<Rightarrow> (evs @ evs', f'')))"

text \<open>\<open>block.content and len(block.content) > 0\<close>, and \<open>block.content[0]\<close> there.\<close>

fun content_nonempty :: "tool_result_content \<Rightarrow> bool" where
  "content_nonempty ContentNone = False"
| "content_nonempty (ContentStr s) = (s \<noteq> [] \<and> length s > 0)"
| "content_nonempty (ContentList xs) = (xs \<noteq> [] \<and> length xs > 0)"

fun content_first :: "tool_result_content \<Rightarrow> json option" where
  "content_first (ContentStr (c # s)) = Some (JStr [c])"
| "content_first (ContentList (x # xs)) = Some x"
| "content_first _ = None"

text \<open>
  The body of \<open>try\<close>: \<open>json.loads(text_content)\<close> and the assignment. A
  \<open>JSONDecodeError\<close> is caught and passed over; a \<open>TypeError\<close> is not.
\<close>

definition read_session :: "env \<Rightarrow> frame \<Rightarrow> json \<Rightarrow> exn + frame" where
  "read_session E f text_content =
     (case text_content of
        JStr s \<Rightarrow>
          (case json_loads E s of
             None \<Rightarrow> Inr f
           | Some result_data \<Rightarrow>
               (case result_data of
                  JObj d \<Rightarrow>
                    (let extracted = dict_get d ''code_int_session_id'' (JStr '''')
                     in if truthy extracted
                        then Inr (f\<lparr>code_int_session_id := Some extracted\<rparr>)
                        else Inr f)
                | _ \<Rightarrow> Inr f))
      | _ \<Rightarrow> Inl TypeError)"

text \<open>One block of a \<open>UserMessage\<close>; it yields nothing.\<close>

fun user_block :: "env \<Rightarrow> frame \<Rightarrow> content_block \<Rightarrow> exn + frame" where
  "user_block E f (ToolResultBlock tid content is_error) =
     (if content_nonempty content then
        (case content_first content of
           Some (JObj d) \<Rightarrow> read_session E f (dict_get d ''text'' (JStr ''''))
         | _ \<Rightarrow> Inr f)
      else Inr f)"
| "user_block E f _ = Inr f"

fun user_blocks :: "env \<Rightarrow> frame \<Rightarrow> content_block list \<Rightarrow> frame \<times> exn option" where
  "user_blocks E f [] = (f, None)"
| "user_blocks E f (b # bs) =
     (case user_block E f b of
        Inl e \<Rightarrow> (f, Some e)
      | Inr f' \<Rightarrow> user_blocks E f' bs)"

text \<open>
  The body of the \<open>async for\<close> for one message: the events yielded, the new frame, and
  the exception when one is raised. Iterating a \<open>str\<close> content gives characters, none of
  which is a \<open>ToolResultBlock\<close>.
\<close>

fun process_message :: "env \<Rightarrow> frame \<Rightarrow> message \<Rightarrow> event list \<times> frame \<times> exn option" where
  "process_message E f (SystemMessage subtype data) = ([], f, None)"
| "process_message E f (AssistantMessage content) =
     (case assistant_blocks E f content of (evs, f') \<Rightarrow> (evs, f', None))"
| "process_message E f (UserMessage (UStr s)) = ([], f, None)"
| "process_message E f (UserMessage (UBlocks content)) =
     (case user_blocks E f content of (f', x) \<Rightarrow> ([], f', x))"
| "process_message E f (ResultMessage session_id) = ([Claude_session_id session_id], f, None)"
| "process_message E f StreamEvent = ([], f, None)"

text \<open>The \<open>async for\<close> over the messages received; it stops at the first exception.\<close>

fun process_stream :: "env \<Rightarrow> frame \<Rightarrow> message list \<Rightarrow> event list \<times> frame \<times> exn option" where
  "process_stream E f [] = ([], f, None)"
| "process_stream E f (m # ms) =
     (case process_message E f m of
        (evs, f', Some e) \<Rightarrow> (evs, f', Some e)
      | (evs, f', None) \<Rightarrow>
          (case process_stream E f' ms of (evs', f'', x) \<Rightarrow> (evs @ evs', f'', x)))"

text \<open>
  \<open>_process_messages(options)\<close> as the \<open>n\<close>-th client of the invocation: a new
  generator, so its local \<open>code_int_session_id\<close> starts unbound; the exception of the
  run is raised once its messages are consumed.
\<close>

definition process_messages ::
    "env \<Rightarrow> json \<Rightarrow> nat \<Rightarrow> string list \<Rightarrow> claude_agent_options \<Rightarrow> event list \<times> frame \<times> exn option" where
  "process_messages E prompt n responses options =
     (let r = sdk_client E n options prompt in
      case process_stream E \<lparr>agent_responses = responses, code_int_session_id = None\<rparr> (messages r) of
        (evs, f, Some e) \<Rightarrow> (evs, f, Some e)
      | (evs, f, None) \<Rightarrow> (evs, f, failure r))"

text \<open>
  What a caller observes of \<open>main\<close>: the events yielded, in order, the exception that
  ends the generator if one does, and (for the claims on retries) the options of every
  client opened, in order.
\<close>

record main_result =
  events :: "event list"
  raised :: "exn option"
  clients :: "claude_agent_options list"

definition main :: "env \<Rightarrow> (string \<times> json) list \<Rightarrow> main_result" where
  "main E payload =
     (case map_of payload ''prompt'' of
        None \<Rightarrow> \<lparr> events = [], raised = Some KeyError, clients = [] \<rparr>
      | Some prompt \<Rightarrow>
          (let runtime_session_id = dict_get payload ''runtimeSessionId'' (JStr '''');
               code_int_session_id = dict_get payload ''code_int_session_id'' (JStr '''');
               claude_session_id = dict_get payload ''claude_session_id'' JNull;
               first = build_options E claude_session_id;
               fresh = build_options E JNull
           in case process_messages E prompt 0 [] first of
                (evs, f, Some ProcessError) \<Rightarrow>
                  (if truthy claude_session_id then
                     (case process_messages E prompt 1 (agent_responses f) fresh of
                        (evs', f', x) \<Rightarrow>
                          \<lparr> events = evs @ evs', raised = x, clients = [first, fresh] \<rparr>)
                   else \<lparr> events = evs, raised = Some ProcessError, clients = [first] \<rparr>)
              | (evs, f, x) \<Rightarrow> \<lparr> events = evs, raised = x, clients = [first] \<rparr>))"

section \<open>Reading the claims\<close>


text \<open>
  The \<open>"code_int_session_id"\<close> field of the JSON object a text payload decodes to, when
  it decodes to an object that has the field.
\<close>

definition session_field :: "env \<Rightarrow> string \<Rightarrow> json option" where
  "session_field E s =
     (case json_loads E s of
        Some (JObj d) \<Rightarrow> map_of d ''code_int_session_id''
      | _ \<Rightarrow> None)"


section \<open>Sample inputs\<close>

text \<open>
  \<open>json.loads\<close> on the three texts the samples use: the two documents
  \<open>{"code_int_session_id": "sess-42"}\<close> and \<open>{}\<close>, and \<open>not json\<close>, which is
  no JSON document. It is not meant for any other text.
\<close>

definition sample_loads :: "string \<Rightarrow> json option" where
  \<open>sample_loads s =
     (if s = ''{"code_int_session_id": "sess-42"}''
      then Some (JObj [(''code_int_session_id'', JStr ''sess-42'')])
      else if s = ''{}'' then Some (JObj [])
      else None)\<close>

text \<open>
  An environment with the gateway configured, whose first client behaves as \<open>first\<close>
  and whose later clients behave as \<open>retry\<close>.
\<close>

definition sample_env :: "run \<Rightarrow> run \<Rightarrow> env" where
  "sample_env first retry =
     \<lparr> stack_name = Some ''demo'',
       get_ssm_parameter = (\<lambda>name. Some ''https://gateway.example''),
       get_gateway_access_token = Some ''secret'',
       sdk_client = (\<lambda>n options prompt. if n = 0 then first else retry),
       json_loads = sample_loads,
       hash = (\<lambda>s. int (length s)) \<rparr>"

definition tool_result :: "string \<Rightarrow> content_block" where
  "tool_result text =
     ToolResultBlock ''toolu_1''
       (ContentList [JObj [(''type'', JStr ''text''), (''text'', JStr text)]]) False"

definition quiet_run :: run where
  "quiet_run = \<lparr> messages = [], failure = None \<rparr>"

text \<open>A run that yields one text and then fails with \<open>ProcessError\<close>.\<close>

definition failing_run :: run where
  "failing_run = \<lparr> messages = [AssistantMessage [TextBlock ''partial'']], failure = Some ProcessError \<rparr>"

section \<open>Evaluating the samples\<close>

lemmas sample_simps =
  sample_env_def sample_loads_def tool_result_def quiet_run_def
  read_session_def dict_get_def session_field_def

section \<open>The sub-agent catalog\<close>

text \<open>
  Claim C7, as stated, fails: with the gateway configured, the tool list of the
  \<open>code-analyst\<close> entry holds \<open>Read\<close>, which is not among the tools \<open>main\<close> allows
  for the run.
\<close>

theorem subagent_tools_not_within_allowed_tools:
  "(''code-analyst'', code_analyst) \<in> set (subagents (sample_env quiet_run quiet_run))
   \<and> ''Read'' \<in> set (tools code_analyst)
   \<and> ''Read'' \<notin> set (main_allowed_tools (sample_env quiet_run quiet_run))"
  by (simp add: subagents_def get_subagent_definitions_def code_analyst_def
        main_allowed_tools_def)

text \<open>
  Claim C7, amended: the tool list of every entry of the catalog never holds the \<open>Task\<close>
  tool, and each of its tools is one \<open>main\<close> allows for the run (the sandbox operations
  and, when configured, the gateway wildcard), or the gateway wildcard (listed whether
  or not the gateway is configured), or one of the built-in tools \<open>Read\<close>, \<open>Grep\<close>
  and \<open>Glob\<close>.
\<close>

theorem subagent_tools_bound:
  "\<forall>(name, a) \<in> set (subagents E).
     ''Task'' \<notin> set (tools a)
     \<and> set (tools a) \<subseteq>
         (set (main_allowed_tools E) - {''Task''})
         \<union> {''mcp__gateway__*'', ''Read'', ''Grep'', ''Glob''}"
  by (simp add: subagents_def get_subagent_definitions_def code_analyst_def
        main_allowed_tools_def)

theorem subagent_tools_bound_witness:
  "(''code-analyst'', code_analyst) \<in> set (subagents (sample_env quiet_run quiet_run))
   \<and> ''Task'' \<notin> set (tools code_analyst)
   \<and> set (tools code_analyst) \<subseteq>
         (set (main_allowed_tools (sample_env quiet_run quiet_run)) - {''Task''})
         \<union> {''mcp__gateway__*'', ''Read'', ''Grep'', ''Glob''}"
proof -
  have m: "(''code-analyst'', code_analyst) \<in> set (subagents (sample_env quiet_run quiet_run))"
    by (simp add: subagents_def get_subagent_definitions_def)
  from subagent_tools_bound [of "sample_env quiet_run quiet_run"] m
  show ?thesis by blast
qed

section \<open>The session id of the sandbox\<close>


















section \<open>The events yielded\<close>

lemma assistant_block_events:
  "fst (assistant_block E f b) = fst (assistant_block E g b)"
  by (cases "(E, f, b)" rule: assistant_block.cases) auto

lemma assistant_blocks_events:
  "fst (assistant_blocks E f bs) = concat (map (\<lambda>b. fst (assistant_block E g b)) bs)"
proof (induction bs arbitrary: f)
  case Nil
  show ?case by simp
next
  case (Cons b bs)
  have "fst (assistant_blocks E f (b # bs))
        = fst (assistant_block E f b) @ fst (assistant_blocks E (snd (assistant_block E f b)) bs)"
    by (simp add: split_beta)
  with Cons.IH [of "snd (assistant_block E f b)"] assistant_block_events [of E f b g]
  show ?case by simp
qed

lemma process_message_events:
  "fst (process_message E f m) = fst (process_message E g m)"
proof (cases "(E, f, m)" rule: process_message.cases)
  case (2 E' f' content)
  then show ?thesis
    using assistant_blocks_events [of E f content g] assistant_blocks_events [of E g content g]
    by (simp add: split_beta)
qed (auto simp: split_beta)

lemma process_stream_Cons_events:
  "snd (snd (process_message E f m)) = None \<Longrightarrow>
   fst (process_stream E f (m # ms))
     = fst (process_message E f m) @ fst (process_stream E (fst (snd (process_message E f m))) ms)"
  by (cases "process_message E f m") (auto simp: split_beta)

lemma process_stream_Cons_raised:
  "snd (snd (process_stream E f (m # ms))) = None \<Longrightarrow>
   snd (snd (process_message E f m)) = None
   \<and> snd (snd (process_stream E (fst (snd (process_message E f m))) ms)) = None"
  by (cases "process_message E f m") (auto simp: split_beta split: option.splits)

lemma process_stream_events:
  "snd (snd (process_stream E f ms)) = None \<Longrightarrow>
   fst (process_stream E f ms) = concat (map (\<lambda>m. fst (process_message E g m)) ms)"
proof (induction ms arbitrary: f)
  case Nil
  show ?case by simp
next
  case (Cons m ms)
  from process_stream_Cons_raised [OF Cons.prems]
  have head: "snd (snd (process_message E f m)) = None"
    and rest: "snd (snd (process_stream E (fst (snd (process_message E f m))) ms)) = None"
    by simp_all
  from process_stream_Cons_events [OF head, of ms] Cons.IH [OF rest]
       process_message_events [of E f m g]
  show ?case by simp
qed

lemma process_stream_append_events:
  "snd (snd (process_stream E f pre)) = None \<Longrightarrow>
   fst (process_stream E f (pre @ post))
     = fst (process_stream E f pre) @ fst (process_stream E (fst (snd (process_stream E f pre))) post)"
proof (induction pre arbitrary: f)
  case Nil
  show ?case by simp
next
  case (Cons m pre)
  obtain e1 f1 where m: "process_message E f m = (e1, f1, None)"
    using process_stream_Cons_raised [OF Cons.prems] by (cases "process_message E f m") auto
  with Cons.prems have rest: "snd (snd (process_stream E f1 pre)) = None"
    by (simp add: split_beta)
  from Cons.IH [OF rest] m show ?case by (simp add: split_beta)
qed

text \<open>
  Claim C8: every tool-use block of an assistant message that the translator reaches
  yields one \<open>current_tool_use\<close> event with the block's name, its input and the id
  \<open>tool-\<close> followed by the block's id when it has one, and by the decimal hash of the
  tool name otherwise. The witness is scenario B: the id \<open>abc\<close> gives \<open>tool-abc\<close>.
\<close>

theorem tool_use_yields_current_tool_use:
  assumes "snd (snd (process_stream E f pre)) = None"
  shows "Current_tool_use name inp
           (case i of Some x \<Rightarrow> ''tool-'' @ x | None \<Rightarrow> ''tool-'' @ str_int (hash E name))
         \<in> set (fst (process_stream E f
               (pre @ AssistantMessage (bs1 @ ToolUseBlock i name inp # bs2) # post)))
         \<and> fst (assistant_block E f (ToolUseBlock i name inp))
           = [Current_tool_use name inp
                (case i of Some x \<Rightarrow> ''tool-'' @ x | None \<Rightarrow> ''tool-'' @ str_int (hash E name))]"
proof -
  let ?ev = "Current_tool_use name inp
           (case i of Some x \<Rightarrow> ''tool-'' @ x | None \<Rightarrow> ''tool-'' @ str_int (hash E name))"
  let ?f1 = "fst (snd (process_stream E f pre))"
  have one: "fst (assistant_block E g (ToolUseBlock i name inp)) = [?ev]" for g
    by (cases i) simp_all
  have "fst (assistant_blocks E ?f1 (bs1 @ ToolUseBlock i name inp # bs2))
        = concat (map (\<lambda>b. fst (assistant_block E f b)) (bs1 @ ToolUseBlock i name inp # bs2))"
    by (rule assistant_blocks_events)
  then have "?ev \<in> set (fst (assistant_blocks E ?f1 (bs1 @ ToolUseBlock i name inp # bs2)))"
    using one [of f] by simp
  then have "?ev \<in> set (fst (process_stream E ?f1
               (AssistantMessage (bs1 @ ToolUseBlock i name inp # bs2) # post)))"
    by (simp add: split_beta)
  with process_stream_append_events [OF assms,
         of "AssistantMessage (bs1 @ ToolUseBlock i name inp # bs2) # post"]
  have "?ev \<in> set (fst (process_stream E f
               (pre @ AssistantMessage (bs1 @ ToolUseBlock i name inp # bs2) # post)))"
    by simp
  with one [of f] show ?thesis by simp
qed

theorem tool_use_yields_current_tool_use_witness:
  "snd (snd (process_stream (sample_env quiet_run quiet_run)
        \<lparr>agent_responses = [], code_int_session_id = None\<rparr> [SystemMessage ''init'' []])) = None
   \<and> Current_tool_use ''execute_code'' (JObj [(''code'', JStr ''print(1)'')]) ''tool-abc''
      \<in> set (fst (process_stream (sample_env quiet_run quiet_run)
           \<lparr>agent_responses = [], code_int_session_id = None\<rparr>
           [SystemMessage ''init'' [],
            AssistantMessage [TextBlock ''running'',
               ToolUseBlock (Some ''abc'') ''execute_code'' (JObj [(''code'', JStr ''print(1)'')])],
            ResultMessage ''r1'']))"
proof -
  have h: "snd (snd (process_stream (sample_env quiet_run quiet_run)
        \<lparr>agent_responses = [], code_int_session_id = None\<rparr> [SystemMessage ''init'' []])) = None"
    by simp
  from tool_use_yields_current_tool_use [OF h, of "''execute_code''"
         "JObj [(''code'', JStr ''print(1)'')]" "Some ''abc''" "[TextBlock ''running'']" "[]"
         "[ResultMessage ''r1'']"] h
  show ?thesis by simp
qed

text \<open>
  Claim C10: the events of a stream processed without an exception are the events of its
  messages, concatenated in the order of the messages, and the events of an assistant
  message are those of its blocks in the order of the blocks. The events of one message
  or block do not depend on the frame, so \<open>g\<close> is any frame. In particular the stream
  \<open>init\<close>, text \<open>hi\<close>, result \<open>r1\<close> yields exactly the text and then the result.
\<close>

theorem events_follow_message_order:
  "(snd (snd (process_stream E f ms)) = None \<longrightarrow>
      fst (process_stream E f ms) = concat (map (\<lambda>m. fst (process_message E g m)) ms))
   \<and> fst (process_message E f (AssistantMessage bs))
      = concat (map (\<lambda>b. fst (assistant_block E g b)) bs)
   \<and> process_stream E f
       [SystemMessage ''init'' d, AssistantMessage [TextBlock ''hi''], ResultMessage ''r1'']
      = ([Data ''hi'', Claude_session_id ''r1''],
         f\<lparr>agent_responses := agent_responses f @ [''hi'']\<rparr>, None)"
  using process_stream_events [of E f ms g] assistant_blocks_events [of E f bs g]
  by (simp add: split_beta)

theorem events_follow_message_order_witness:
  "process_stream (sample_env quiet_run quiet_run)
      \<lparr>agent_responses = [], code_int_session_id = None\<rparr>
      [AssistantMessage [TextBlock ''a'', ToolUseBlock None ''t'' JNull, TextBlock ''b''],
       UserMessage (UBlocks [tool_result ''not json'']),
       AssistantMessage [TextBlock ''c''],
       ResultMessage ''r1'']
    = ([Data ''a'', Current_tool_use ''t'' JNull ''tool-1'', Data ''b'', Data ''c'',
        Claude_session_id ''r1''],
       \<lparr>agent_responses = [''a'', ''b'', ''c''], code_int_session_id = None\<rparr>, None)
   \<and> concat (map (\<lambda>m. fst (process_message (sample_env quiet_run quiet_run)
                          \<lparr>agent_responses = [], code_int_session_id = None\<rparr> m))
      [AssistantMessage [TextBlock ''a'', ToolUseBlock None ''t'' JNull, TextBlock ''b''],
       UserMessage (UBlocks [tool_result ''not json'']),
       AssistantMessage [TextBlock ''c''],
       ResultMessage ''r1''])
    = [Data ''a'', Current_tool_use ''t'' JNull ''tool-1'', Data ''b'', Data ''c'',
        Claude_session_id ''r1'']"
proof -
  have run: "process_stream (sample_env quiet_run quiet_run)
      \<lparr>agent_responses = [], code_int_session_id = None\<rparr>
      [AssistantMessage [TextBlock ''a'', ToolUseBlock None ''t'' JNull, TextBlock ''b''],
       UserMessage (UBlocks [tool_result ''not json'']),
       AssistantMessage [TextBlock ''c''],
       ResultMessage ''r1'']
    = ([Data ''a'', Current_tool_use ''t'' JNull ''tool-1'', Data ''b'', Data ''c'',
        Claude_session_id ''r1''],
       \<lparr>agent_responses = [''a'', ''b'', ''c''], code_int_session_id = None\<rparr>, None)"
    by (simp add: sample_simps str_int_def str_nat.simps)
  from events_follow_message_order [of "sample_env quiet_run quiet_run"
         "\<lparr>agent_responses = [], code_int_session_id = None\<rparr>"
         "[AssistantMessage [TextBlock ''a'', ToolUseBlock None ''t'' JNull, TextBlock ''b''],
           UserMessage (UBlocks [tool_result ''not json'']),
           AssistantMessage [TextBlock ''c''],
           ResultMessage ''r1'']"
         "\<lparr>agent_responses = [], code_int_session_id = None\<rparr>"] run
  show ?thesis by simp
qed

section \<open>The retry after a failed resume\<close>

text \<open>
  Claim C2: when the payload's \<open>claude_session_id\<close> is non-empty and the first attempt
  ends with \<open>ProcessError\<close>, \<open>main\<close> opens exactly two clients, the second with
  \<open>resume\<close> set to \<open>None\<close>; the events of the retry follow those already yielded, and
  whatever the retry raises (a \<open>ProcessError\<close> included) is what \<open>main\<close> raises.
\<close>

theorem resume_failure_retried_once:
  assumes "map_of payload ''prompt'' = Some prompt"
    and "truthy (dict_get payload ''claude_session_id'' JNull)"
    and "process_messages E prompt 0 []
           (build_options E (dict_get payload ''claude_session_id'' JNull))
         = (evs, f, Some ProcessError)"
  shows "clients (main E payload)
           = [build_options E (dict_get payload ''claude_session_id'' JNull), build_options E JNull]
         \<and> resume (build_options E JNull) = JNull
         \<and> events (main E payload)
           = evs @ fst (process_messages E prompt 1 (agent_responses f) (build_options E JNull))
         \<and> raised (main E payload)
           = snd (snd (process_messages E prompt 1 (agent_responses f) (build_options E JNull)))"
  using assms by (simp add: main_def Let_def split_beta build_options_def)

theorem resume_failure_retried_once_witness:
  "main (sample_env failing_run \<lparr> messages = [], failure = Some ProcessError \<rparr>)
        [(''prompt'', JStr ''go''), (''claude_session_id'', JStr ''t1'')]
   = \<lparr> events = [Data ''partial''], raised = Some ProcessError,
       clients =
         [build_options (sample_env failing_run \<lparr> messages = [], failure = Some ProcessError \<rparr>) (JStr ''t1''),
          build_options (sample_env failing_run \<lparr> messages = [], failure = Some ProcessError \<rparr>) JNull] \<rparr>"
proof -
  let ?E = "sample_env failing_run \<lparr> messages = [], failure = Some ProcessError \<rparr>"
  let ?p = "[(''prompt'', JStr ''go''), (''claude_session_id'', JStr ''t1'')]"
  have p: "map_of ?p ''prompt'' = Some (JStr ''go'')" by simp
  have t: "truthy (dict_get ?p ''claude_session_id'' JNull)" by (simp add: dict_get_def)
  have a: "process_messages ?E (JStr ''go'') 0 [] (build_options ?E (dict_get ?p ''claude_session_id'' JNull))
           = ([Data ''partial''], \<lparr>agent_responses = [''partial''], code_int_session_id = None\<rparr>,
              Some ProcessError)"
    by (simp add: process_messages_def sample_env_def failing_run_def)
  have b: "process_messages ?E (JStr ''go'') 1 [''partial''] (build_options ?E JNull)
           = ([], \<lparr>agent_responses = [''partial''], code_int_session_id = None\<rparr>, Some ProcessError)"
    by (simp add: process_messages_def sample_env_def)
  from resume_failure_retried_once [OF p t a] b
  have "clients (main ?E ?p) = [build_options ?E (JStr ''t1''), build_options ?E JNull]"
    and "events (main ?E ?p) = [Data ''partial'']"
    and "raised (main ?E ?p) = Some ProcessError"
    by (simp_all add: dict_get_def)
  then show ?thesis by (cases "main ?E ?p") simp
qed


text \<open>
  Claim C4: when the payload's \<open>claude_session_id\<close> is absent or empty and the attempt
  ends with \<open>ProcessError\<close>, \<open>main\<close> raises it and opens no second client.
\<close>

theorem resume_failure_without_token_not_retried:
  assumes "map_of payload ''prompt'' = Some prompt"
    and "\<not> truthy (dict_get payload ''claude_session_id'' JNull)"
    and "process_messages E prompt 0 []
           (build_options E (dict_get payload ''claude_session_id'' JNull))
         = (evs, f, Some ProcessError)"
  shows "main E payload
         = \<lparr> events = evs, raised = Some ProcessError,
             clients = [build_options E (dict_get payload ''claude_session_id'' JNull)] \<rparr>"
  using assms by (simp add: main_def Let_def)

section \<open>The incoming sandbox session id\<close>

text \<open>
  Claim C6: two payloads that agree on every key but \<open>"code_int_session_id"\<close> give the
  same result in the same environment: the same events, the same exception and the
  same options for every client opened.
\<close>

theorem incoming_code_int_session_id_unused:
  assumes "\<forall>k. k \<noteq> ''code_int_session_id'' \<longrightarrow> map_of p1 k = map_of p2 k"
  shows "main E p1 = main E p2"
proof -
  from assms have "map_of p1 ''prompt'' = map_of p2 ''prompt''"
    and "map_of p1 ''claude_session_id'' = map_of p2 ''claude_session_id''"
    by simp_all
  then show ?thesis
    by (cases "map_of p2 ''prompt''") (simp_all add: main_def Let_def dict_get_def)
qed


theorem resume_failure_without_token_not_retried_witness:
  "main (sample_env failing_run quiet_run) [(''prompt'', JStr ''go'')]
   = \<lparr> events = [Data ''partial''], raised = Some ProcessError,
       clients = [build_options (sample_env failing_run quiet_run) JNull] \<rparr>
   \<and> main (sample_env failing_run quiet_run)
        [(''prompt'', JStr ''go''), (''claude_session_id'', JStr '''')]
   = \<lparr> events = [Data ''partial''], raised = Some ProcessError,
       clients = [build_options (sample_env failing_run quiet_run) (JStr '''')] \<rparr>"
proof -
  let ?E = "sample_env failing_run quiet_run"
  let ?p = "[(''prompt'', JStr ''go'')]"
  let ?q = "[(''prompt'', JStr ''go''), (''claude_session_id'', JStr '''')]"
  have p: "map_of ?p ''prompt'' = Some (JStr ''go'')" by simp
  have q: "map_of ?q ''prompt'' = Some (JStr ''go'')" by simp
  have tp: "\<not> truthy (dict_get ?p ''claude_session_id'' JNull)" by (simp add: dict_get_def)
  have tq: "\<not> truthy (dict_get ?q ''claude_session_id'' JNull)" by (simp add: dict_get_def)
  have a: "process_messages ?E (JStr ''go'') 0 [] (build_options ?E (dict_get ?p ''claude_session_id'' JNull))
           = ([Data ''partial''], \<lparr>agent_responses = [''partial''], code_int_session_id = None\<rparr>,
              Some ProcessError)"
    by (simp add: process_messages_def sample_env_def failing_run_def)
  have b: "process_messages ?E (JStr ''go'') 0 [] (build_options ?E (dict_get ?q ''claude_session_id'' JNull))
           = ([Data ''partial''], \<lparr>agent_responses = [''partial''], code_int_session_id = None\<rparr>,
              Some ProcessError)"
    by (simp add: process_messages_def sample_env_def failing_run_def)
  from resume_failure_without_token_not_retried [OF p tp a]
       resume_failure_without_token_not_retried [OF q tq b]
  show ?thesis by (simp add: dict_get_def)
qed

theorem incoming_code_int_session_id_unused_witness:
  \<open>main (sample_env
          \<lparr> messages = [UserMessage (UBlocks [tool_result ''{"code_int_session_id": "sess-42"}'']),
                         AssistantMessage [TextBlock ''done''], ResultMessage ''r1''],
            failure = None \<rparr> quiet_run)
        [(''prompt'', JStr ''go''), (''code_int_session_id'', JStr ''sess-A'')]
     = main (sample_env
          \<lparr> messages = [UserMessage (UBlocks [tool_result ''{"code_int_session_id": "sess-42"}'']),
                         AssistantMessage [TextBlock ''done''], ResultMessage ''r1''],
            failure = None \<rparr> quiet_run)
        [(''prompt'', JStr ''go''), (''code_int_session_id'', JStr ''sess-B'')]
   \<and> events (main (sample_env
          \<lparr> messages = [UserMessage (UBlocks [tool_result ''{"code_int_session_id": "sess-42"}'']),
                         AssistantMessage [TextBlock ''done''], ResultMessage ''r1''],
            failure = None \<rparr> quiet_run)
        [(''prompt'', JStr ''go''), (''code_int_session_id'', JStr ''sess-A'')])
     = [Data ''done'', Claude_session_id ''r1'']\<close>
proof -
  have h: "\<forall>k. k \<noteq> ''code_int_session_id'' \<longrightarrow>
        map_of [(''prompt'', JStr ''go''), (''code_int_session_id'', JStr ''sess-A'')] k
        = map_of [(''prompt'', JStr ''go''), (''code_int_session_id'', JStr ''sess-B'')] k"
    by simp
  have e: \<open>events (main (sample_env
          \<lparr> messages = [UserMessage (UBlocks [tool_result ''{"code_int_session_id": "sess-42"}'']),
                         AssistantMessage [TextBlock ''done''], ResultMessage ''r1''],
            failure = None \<rparr> quiet_run)
        [(''prompt'', JStr ''go''), (''code_int_session_id'', JStr ''sess-A'')])
     = [Data ''done'', Claude_session_id ''r1'']\<close>
    by (simp add: main_def process_messages_def Let_def sample_simps)
  from incoming_code_int_session_id_unused [OF h] h e show ?thesis by blast
qed

end
